theory Spec2Isabelle
  imports Main "HOL-Library.Monad_Syntax"
begin

section \<open>Python values and string conversion\<close>

text \<open>
  The argument \<open>eargs\<close> of \<open>append_effect_to_chain\<close> is loosely typed: a string, a number
  or a list whose elements are again such values. \<open>None\<close> (argument absent) is the
  \<open>None\<close> of the option type around it.
\<close>

datatype pyval = PStr string | PInt int | PList "pyval list"

text \<open>\<open>isinstance(v, list)\<close>.\<close>

fun isinstance_list :: "pyval \<Rightarrow> bool" where
  "isinstance_list (PList _) = True"
| "isinstance_list _ = False"

text \<open>\<open>str(v)\<close> on the leaves: a string is itself, an integer is its decimal numeral.\<close>

definition digit_char :: "nat \<Rightarrow> char" where
  "digit_char d = ''0123456789'' ! d"

function str_nat :: "nat \<Rightarrow> string" where
  "str_nat n = (if n < 10 then [digit_char n] else str_nat (n div 10) @ [digit_char (n mod 10)])"
  by pat_completeness auto
termination
  by (relation "measure id") auto

definition str_int :: "int \<Rightarrow> string" where
  "str_int i = (if i < 0 then CHR ''-'' # str_nat (nat (- i)) else str_nat (nat i))"

text \<open>
  \<open>str\<close> of a list prints its elements with \<open>repr\<close>; \<open>_flatten\<close> never applies \<open>str\<close>
  to a list (its third branch is reached only when \<open>x[0]\<close> is not a list), so the
  quoting of nested strings is not modelled and a nested string is printed bare.
\<close>

fun str :: "pyval \<Rightarrow> string"
  and str_items :: "pyval list \<Rightarrow> string" where
  "str (PStr s) = s"
| "str (PInt i) = str_int i"
| "str (PList vs) = ''['' @ str_items vs @ '']''"
| "str_items [] = []"
| "str_items [v] = str v"
| "str_items (v # w # vs) = str v @ '', '' @ str_items (w # vs)"

text \<open>
  \<open>s.lower()\<close>. Effect names are modelled as ASCII strings: the letters \<open>A\<close> to
  \<open>Z\<close> go to \<open>a\<close> to \<open>z\<close> and every other character stays. What \<open>str.lower\<close>
  does to characters beyond ASCII is not modelled, and \<open>has_ascii_upper\<close> asks for one
  of the letters \<open>A\<close> to \<open>Z\<close> only.
\<close>

definition ascii_uppercase :: string where
  "ascii_uppercase = ''ABCDEFGHIJKLMNOPQRSTUVWXYZ''"

definition ascii_lowercase :: string where
  "ascii_lowercase = ''abcdefghijklmnopqrstuvwxyz''"

definition lower_char :: "char \<Rightarrow> char" where
  "lower_char c = (case map_of (zip ascii_uppercase ascii_lowercase) c of
                     Some d \<Rightarrow> d | None \<Rightarrow> c)"

definition lower :: "string \<Rightarrow> string" where
  "lower s = map lower_char s"

definition has_ascii_upper :: "string \<Rightarrow> bool" where
  "has_ascii_upper s = list_ex (\<lambda>c. c \<in> set ascii_uppercase) s"

section \<open>Errors\<close>

text \<open>
  The exceptions the module raises, each with its message; \<open>ExternalError\<close> stands for
  whatever the extension module or torch raise.
\<close>

datatype error =
    NotImplementedError string
  | LookupError string
  | RuntimeError string
  | ExternalError string

section \<open>The lifecycle flag\<close>

text \<open>
  \<open>_SOX_INITIALIZED\<close> is \<open>False\<close>, \<open>True\<close> or \<open>None\<close>: \<open>Some False\<close>, \<open>Some True\<close>
  and \<open>None\<close> here. The process state holds the flag, the hooks registered with
  \<open>atexit\<close>, and the state of the extension module, whose two entry points are
  parameters: each takes the engine state and returns a status code and the new state.
\<close>

datatype exit_hook = Hook_shutdown_sox

record 'e process =
  SOX_INITIALIZED :: "bool option"
  atexit_hooks :: "exit_hook list"
  engine :: 'e

record 'e torchaudio_lifecycle =
  ext_initialize_sox :: "'e \<Rightarrow> int \<times> 'e"
  ext_shutdown_sox :: "'e \<Rightarrow> int \<times> 'e"

definition SOX_SUCCESS_CODE :: int where
  "SOX_SUCCESS_CODE = 0"

text \<open>Python's \<open>==\<close> between an \<open>int\<close> and a \<open>bool\<close>: \<open>True\<close> is \<open>1\<close>, \<open>False\<close> is \<open>0\<close>.\<close>

definition py_eq_int_bool :: "int \<Rightarrow> bool \<Rightarrow> bool" where
  "py_eq_int_bool i b = (i = (if b then 1 else 0))"

text \<open>Python's \<open>==\<close> between an \<open>int\<close> and the flag (\<open>None\<close> equals no integer).\<close>

definition py_eq_int_flag :: "int \<Rightarrow> bool option \<Rightarrow> bool" where
  "py_eq_int_flag i f = (case f of None \<Rightarrow> False | Some b \<Rightarrow> py_eq_int_bool i b)"

text \<open>Truth value of the flag: \<open>None\<close> and \<open>False\<close> are falsy.\<close>

definition truthy :: "bool option \<Rightarrow> bool" where
  "truthy f = (f = Some True)"

definition initialize_sox ::
  "'e torchaudio_lifecycle \<Rightarrow> 'e process \<Rightarrow> 'e process \<times> (error + int)" where
  "initialize_sox ext p =
     (if SOX_INITIALIZED p = None then
        (p, Inl (RuntimeError
           ''SoX effects chain has been already shut down. Can not initialize again.''))
      else if \<not> truthy (SOX_INITIALIZED p) then
        (case ext_initialize_sox ext (engine p) of
           (code, e') \<Rightarrow>
             (if code = SOX_SUCCESS_CODE
              then p\<lparr>SOX_INITIALIZED := Some True,
                     atexit_hooks := atexit_hooks p @ [Hook_shutdown_sox],
                     engine := e'\<rparr>
              else p\<lparr>engine := e'\<rparr>,
              Inr code))
      else (p, Inr SOX_SUCCESS_CODE))"

definition shutdown_sox ::
  "'e torchaudio_lifecycle \<Rightarrow> 'e process \<Rightarrow> 'e process \<times> int" where
  "shutdown_sox ext p =
     (if truthy (SOX_INITIALIZED p) then
        (case ext_shutdown_sox ext (engine p) of
           (code, e') \<Rightarrow>
             (if py_eq_int_flag code (SOX_INITIALIZED p)
              then p\<lparr>SOX_INITIALIZED := None, engine := e'\<rparr>
              else p\<lparr>engine := e'\<rparr>,
              code))
      else (p, SOX_SUCCESS_CODE))"

section \<open>The effects chain\<close>

record SoxEffect =
  ename :: string
  eopts :: "string list"

text \<open>
  The fields of \<open>SoxEffectsChain\<close>. \<open>out_siginfo\<close>, \<open>out_encinfo\<close> and \<open>normalization\<close>
  are opaque to this module (type parameters); the field \<open>chain\<close> is \<open>chain_list\<close>.
\<close>

record ('sig, 'enc, 'norm) SoxEffectsChain =
  input_file :: "string option"
  chain_list :: "SoxEffect list"
  MAX_EFFECT_OPTS :: int
  out_siginfo :: "'sig option"
  out_encinfo :: "'enc option"
  filetype :: string
  normalization :: 'norm
  channels_first :: bool
  EFFECTS_AVAILABLE :: "string set"

definition EFFECTS_UNIMPLEMENTED :: "string set" where
  "EFFECTS_UNIMPLEMENTED = {''spectrogram'', ''splice'', ''noiseprof'', ''fir''}"

text \<open>\<open>__init__\<close>; \<open>names\<close> is what \<open>effect_names()\<close> returns at that moment.\<close>

definition init ::
  "string list \<Rightarrow> 'norm \<Rightarrow> bool \<Rightarrow> 'sig option \<Rightarrow> 'enc option \<Rightarrow> string
     \<Rightarrow> ('sig, 'enc, 'norm) SoxEffectsChain" where
  "init names norm cf siginfo encinfo ftype =
     \<lparr>input_file = None, chain_list = [], MAX_EFFECT_OPTS = 20,
      out_siginfo = siginfo, out_encinfo = encinfo, filetype = ftype,
      normalization = norm, channels_first = cf,
      EFFECTS_AVAILABLE = set names\<rparr>"

definition check_effect ::
  "('sig, 'enc, 'norm) SoxEffectsChain \<Rightarrow> string \<Rightarrow> error + string" where
  "check_effect self e =
     (if lower e \<in> EFFECTS_UNIMPLEMENTED then
        Inl (NotImplementedError
               (''This effect ('' @ e @ '') is not implement in torchaudio''))
      else if lower e \<notin> EFFECTS_AVAILABLE self then
        Inl (LookupError (''Effect name, '' @ lower e @ '', not valid''))
      else Inr (lower e))"

text \<open>
  \<open>_flatten\<close>. The recursion is not structural (the second branch calls itself on
  \<open>x[:1]\<close>), so the function is partial: \<open>None\<close> is a call that does not return.
  CPython ends such a call with \<open>RecursionError\<close> when the stack is exhausted. The
  model puts no bound on the depth of a recursion that ends: a long list that holds no
  list returns here, where the interpreter's stack limit may stop it.
\<close>

partial_function (option) flatten :: "pyval list \<Rightarrow> string list option" where
  "flatten x =
     (if x = [] then Some []
      else if isinstance_list (hd x) then
        do { a \<leftarrow> flatten (take 1 x); b \<leftarrow> flatten (take 1 x); Some (a @ b) }
      else
        do { r \<leftarrow> flatten (drop 1 x); Some (map str (take 1 x) @ r) })"

declare flatten.simps [code]

text \<open>
  The flattening in the specification's words, for comparison with \<open>flatten\<close>:
  depth-first, in order, every leaf through \<open>str\<close>.
\<close>

fun spec_flatten :: "pyval \<Rightarrow> string list" where
  "spec_flatten (PList vs) = concat (map spec_flatten vs)"
| "spec_flatten v = [str v]"

definition too_many_msg :: "nat \<Rightarrow> int \<Rightarrow> string" where
  "too_many_msg n m =
     ''Number of effect options ('' @ str_int (int n) @ '') is greater than max ''
     @ ''suggested number of options '' @ str_int m @ ''.  Increase MAX_EFFECT_OPTS ''
     @ ''or lower the number of effect options''"

text \<open>The list handed to \<open>_flatten\<close>: lines 178 to 181.\<close>

definition wrap_eargs :: "pyval option \<Rightarrow> pyval list" where
  "wrap_eargs eargs =
     (case eargs of
        None \<Rightarrow> [PStr '''']
      | Some (PList l) \<Rightarrow> (if l = [] then [PStr ''''] else l)
      | Some v \<Rightarrow> [v])"

text \<open>
  \<open>append_effect_to_chain\<close> returns the chain object as the call leaves it, with
  \<open>Inr ()\<close> for a normal return and \<open>Inl\<close> for the exception raised; \<open>None\<close> when
  \<open>_flatten\<close> does not return. The object that \<open>SoxEffect()\<close> creates on line 175
  is the record built at the end, where its two fields are assigned; the extension
  module is taken to be present, so that the \<open>requires_module\<close> decorators let every
  call through.
\<close>

definition append_effect_to_chain ::
  "('sig, 'enc, 'norm) SoxEffectsChain \<Rightarrow> string \<Rightarrow> pyval option
     \<Rightarrow> (('sig, 'enc, 'norm) SoxEffectsChain \<times> (error + unit)) option" where
  "append_effect_to_chain self name eargs =
     (case check_effect self name of
        Inl err \<Rightarrow> Some (self, Inl err)
      | Inr name' \<Rightarrow>
          (case flatten (wrap_eargs eargs) of
             None \<Rightarrow> None
           | Some opts \<Rightarrow>
               (if int (length opts) > MAX_EFFECT_OPTS self then
                  Some (self, Inl (RuntimeError
                                     (too_many_msg (length opts) (MAX_EFFECT_OPTS self))))
                else
                  Some (self\<lparr>chain_list :=
                               chain_list self @ [\<lparr>ename = name', eopts = opts\<rparr>]\<rparr>,
                        Inr ()))))"

definition clear_chain ::
  "('sig, 'enc, 'norm) SoxEffectsChain \<Rightarrow> ('sig, 'enc, 'norm) SoxEffectsChain" where
  "clear_chain self = self\<lparr>chain_list := []\<rparr>"

definition set_input_file ::
  "('sig, 'enc, 'norm) SoxEffectsChain \<Rightarrow> string \<Rightarrow> ('sig, 'enc, 'norm) SoxEffectsChain" where
  "set_input_file self f = self\<lparr>input_file := Some f\<rparr>"

text \<open>
  What \<open>sox_build_flow_effects\<close> calls outside this file: \<open>_misc_ops.check_input\<close>
  (returns the exception it raises, if any), \<open>torch.FloatTensor()\<close>,
  \<open>_torchaudio.build_flow_effects\<close> (returns the filled tensor and the sample rate, or
  raises) and \<open>_misc_ops.normalize_audio\<close>.
\<close>

record ('t, 'sig, 'enc, 'norm) flow_ext =
  check_input :: "'t \<Rightarrow> error option"
  FloatTensor :: 't
  build_flow_effects ::
    "string option \<Rightarrow> 't \<Rightarrow> bool \<Rightarrow> 'sig option \<Rightarrow> 'enc option \<Rightarrow> string
       \<Rightarrow> SoxEffect list \<Rightarrow> int \<Rightarrow> error + ('t \<times> int)"
  normalize_audio :: "'t \<Rightarrow> 'norm \<Rightarrow> error + 't"

definition no_effects :: SoxEffect where
  "no_effects = \<lparr>ename = ''no_effects'', eopts = ['''']\<rparr>"

definition sox_build_flow_effects ::
  "('t, 'sig, 'enc, 'norm) flow_ext \<Rightarrow> ('sig, 'enc, 'norm) SoxEffectsChain \<Rightarrow> 't option
     \<Rightarrow> ('sig, 'enc, 'norm) SoxEffectsChain \<times> (error + ('t \<times> int))" where
  "sox_build_flow_effects ext self out =
     (case (case out of
              Some t \<Rightarrow> (case check_input ext t of Some err \<Rightarrow> Inl err | None \<Rightarrow> Inr t)
            | None \<Rightarrow> Inr (FloatTensor ext)) of
        Inl err \<Rightarrow> (self, Inl err)
      | Inr out1 \<Rightarrow>
          (let self1 = (if length (chain_list self) = 0
                        then self\<lparr>chain_list := chain_list self @ [no_effects]\<rparr>
                        else self)
           in (case build_flow_effects ext (input_file self1) out1 (channels_first self1)
                      (out_siginfo self1) (out_encinfo self1) (filetype self1)
                      (chain_list self1) (MAX_EFFECT_OPTS self1) of
                 Inl err \<Rightarrow> (self1, Inl err)
               | Inr (out2, sr) \<Rightarrow>
                   (case normalize_audio ext out2 (normalization self1) of
                      Inl err \<Rightarrow> (self1, Inl err)
                    | Inr out3 \<Rightarrow> (self1, Inr (out3, sr))))))"

text \<open>
  Whether \<open>sox_build_flow_effects\<close> gets past its check of \<open>out\<close>: no tensor supplied,
  or one that \<open>check_input\<close> lets through.
\<close>

definition out_accepted :: "('t, 'sig, 'enc, 'norm) flow_ext \<Rightarrow> 't option \<Rightarrow> bool" where
  "out_accepted ext out = (case out of None \<Rightarrow> True | Some t \<Rightarrow> check_input ext t = None)"

text \<open>The tensor the engine is handed: the one supplied, or a fresh \<open>torch.FloatTensor()\<close>.\<close>

definition out_tensor :: "('t, 'sig, 'enc, 'norm) flow_ext \<Rightarrow> 't option \<Rightarrow> 't" where
  "out_tensor ext out = (case out of None \<Rightarrow> FloatTensor ext | Some t \<Rightarrow> t)"

section \<open>Concrete inputs\<close>

text \<open>
  Inputs for the closed instances below: a chain as \<open>__init__\<close> builds it with its
  default arguments over a small registry, and stand-ins for the extension module.
\<close>

definition demo_chain :: "(unit, unit, bool) SoxEffectsChain" where
  "demo_chain = init [''rate'', ''channels'', ''fir''] True True None None ''raw''"

definition demo_flow_ext :: "(int list, unit, unit, bool) flow_ext" where
  "demo_flow_ext =
     \<lparr>check_input = (\<lambda>t. None),
      FloatTensor = [],
      build_flow_effects = (\<lambda>f out cf si ei ft ch m. Inr ([0, 0], 16000)),
      normalize_audio = (\<lambda>t n. Inr t)\<rparr>"

text \<open>
  An engine that shows what it was handed: it fails on an empty effect list, and
  otherwise returns the tensor it was given and, as sample rate, the number of effects.
\<close>

definition demo_flow_probe :: "(int list, unit, unit, bool) flow_ext" where
  "demo_flow_probe =
     \<lparr>check_input = (\<lambda>t. None),
      FloatTensor = [],
      build_flow_effects = (\<lambda>f out cf si ei ft ch m.
         if ch = [] then Inl (ExternalError ''no effects'') else Inr (out, int (length ch))),
      normalize_audio = (\<lambda>t n. Inr t)\<rparr>"

definition opts21 :: "pyval list" where
  "opts21 = [PInt 1, PInt 2, PInt 3, PInt 4, PInt 5, PInt 6, PInt 7, PInt 8, PInt 9, PInt 10,
             PInt 11, PInt 12, PInt 13, PInt 14, PInt 15, PInt 16, PInt 17, PInt 18, PInt 19,
             PInt 20, PInt 21]"

text \<open>A registry snapshot with entries that are not lower-case.\<close>

definition demo_chain_upper :: "(unit, unit, bool) SoxEffectsChain" where
  "demo_chain_upper = init [''Rate'', ''Fir'', ''Echo'', ''echo''] True True None None ''raw''"

text \<open>
  An engine whose state counts the calls made to it: its first \<open>initialize_sox\<close> fails
  with \<open>SOX_EOF = -1\<close>, the later ones succeed, and its \<open>shutdown_sox\<close> succeeds.
\<close>

definition demo_lifecycle :: "nat torchaudio_lifecycle" where
  "demo_lifecycle =
     \<lparr>ext_initialize_sox = (\<lambda>k. (if k = 0 then - 1 else 0, Suc k)),
      ext_shutdown_sox = (\<lambda>k. (0, Suc k))\<rparr>"

definition demo_process :: "bool option \<Rightarrow> nat \<Rightarrow> nat process" where
  "demo_process flag k = \<lparr>SOX_INITIALIZED = flag, atexit_hooks = [], engine = k\<rparr>"

section \<open>Flattening\<close>

lemma flatten_Nil: "flatten [] = Some []"
  by (simp add: flatten.simps)

lemma flatten_leaf_Cons:
  "\<not> isinstance_list v \<Longrightarrow> flatten (v # vs) = do { r \<leftarrow> flatten vs; Some (str v # r) }"
  by (subst flatten.simps) simp

lemma flatten_list_Cons:
  "isinstance_list v \<Longrightarrow>
     flatten (v # vs) = do { a \<leftarrow> flatten [v]; b \<leftarrow> flatten [v]; Some (a @ b) }"
  by (subst flatten.simps) simp

lemma flatten_flat:
  "list_all (\<lambda>v. \<not> isinstance_list v) x \<Longrightarrow> flatten x = Some (map str x)"
  by (induction x) (simp_all add: flatten_Nil flatten_leaf_Cons)

lemma flatten_Some_flat:
  assumes "flatten x = Some y"
  shows "list_all (\<lambda>v. \<not> isinstance_list v) x"
proof (rule flatten.raw_induct [OF _ assms])
  fix f :: "pyval list \<Rightarrow> string list option" and x y
  assume IH: "\<And>x y. f x = Some y \<Longrightarrow> list_all (\<lambda>v. \<not> isinstance_list v) x"
  assume body:
    "(if x = [] then Some []
      else if isinstance_list (hd x) then
        do { a \<leftarrow> f (take 1 x); b \<leftarrow> f (take 1 x); Some (a @ b) }
      else
        do { r \<leftarrow> f (drop 1 x); Some (map str (take 1 x) @ r) }) = Some y"
  show "list_all (\<lambda>v. \<not> isinstance_list v) x"
  proof (cases x)
    case Nil
    then show ?thesis by simp
  next
    case (Cons v vs)
    show ?thesis
    proof (cases "isinstance_list v")
      case True
      with Cons body obtain a where "f [v] = Some a"
        by (auto simp: bind_eq_Some_conv)
      from IH [OF this] True show ?thesis by simp
    next
      case False
      with Cons body obtain r where "f vs = Some r"
        by (auto simp: bind_eq_Some_conv)
      from IH [OF this] False Cons show ?thesis by simp
    qed
  qed
qed

lemma flatten_nested:
  "\<not> list_all (\<lambda>v. \<not> isinstance_list v) x \<Longrightarrow> flatten x = None"
  using flatten_Some_flat [of x] by (cases "flatten x") auto

lemma flatten_iff:
  "flatten x = (if list_ex isinstance_list x then None else Some (map str x))"
proof (cases "list_ex isinstance_list x")
  case True
  then have "\<not> list_all (\<lambda>v. \<not> isinstance_list v) x"
    by (simp add: list_ex_iff list_all_iff)
  with True show ?thesis by (simp add: flatten_nested)
next
  case False
  then have "list_all (\<lambda>v. \<not> isinstance_list v) x"
    by (simp add: list_ex_iff list_all_iff)
  with False show ?thesis by (simp add: flatten_flat)
qed

lemma str_int_16000: "str_int 16000 = ''16000''"
  by (simp add: str_int_def digit_char_def)

text \<open>
  C2. The claim: the flattening step returns (or raises a validation error) for every
  finite argument, nested lists such as \<open>[[16000]]\<close> included. The code: \<open>_flatten\<close>
  returns exactly on the lists that hold no list; as soon as an element is a list the
  call recurses on \<open>x[:1]\<close>, which is again a list whose head is that list, and never
  returns. \<open>_flatten([[16000]])\<close> is such a call.
\<close>

theorem flatten_returns_iff_flat:
  "flatten x = (if list_ex isinstance_list x then None else Some (map str x))
   \<and> flatten (wrap_eargs (Some (PList [PList [PInt 16000]]))) = None"
  by (simp add: flatten_iff [of x] flatten_nested wrap_eargs_def)

section \<open>Name validation\<close>

lemma lower_char_not_upper: "lower_char c \<notin> set ascii_uppercase"
  by (simp add: lower_char_def ascii_uppercase_def ascii_lowercase_def)

lemma lower_no_upper: "\<not> has_ascii_upper (lower e)"
  by (simp add: has_ascii_upper_def lower_def list_ex_iff lower_char_not_upper)

lemmas lower_eval = lower_def lower_char_def ascii_uppercase_def ascii_lowercase_def

lemmas demo_chain_eval = demo_chain_def init_def EFFECTS_UNIMPLEMENTED_def

lemma check_effect_demo_rate: "check_effect demo_chain ''rate'' = Inr ''rate''"
  by (simp add: check_effect_def demo_chain_eval lower_eval)

lemma check_effect_demo_channels: "check_effect demo_chain ''channels'' = Inr ''channels''"
  by (simp add: check_effect_def demo_chain_eval lower_eval)

section \<open>Appending\<close>

lemma wrap_eargs_absent: "flatten (wrap_eargs None) = Some ['''']"
  by (simp add: wrap_eargs_def flatten_iff)

lemma wrap_eargs_empty: "flatten (wrap_eargs (Some (PList []))) = Some ['''']"
  by (simp add: wrap_eargs_def flatten_iff)

lemma wrap_eargs_scalar:
  "\<not> isinstance_list v \<Longrightarrow> flatten (wrap_eargs (Some v)) = Some [str v]"
  by (cases v) (simp_all add: wrap_eargs_def flatten_iff)

lemma wrap_eargs_flat:
  "l \<noteq> [] \<Longrightarrow> \<not> list_ex isinstance_list l \<Longrightarrow>
     flatten (wrap_eargs (Some (PList l))) = Some (map str l)"
  by (simp add: wrap_eargs_def flatten_iff)

lemma wrap_eargs_nested:
  "list_ex isinstance_list l \<Longrightarrow> flatten (wrap_eargs (Some (PList l))) = None"
  by (cases l) (simp_all add: wrap_eargs_def flatten_iff)

lemma append_invalid:
  "check_effect self name = Inl err \<Longrightarrow>
     append_effect_to_chain self name eargs = Some (self, Inl err)"
  by (simp add: append_effect_to_chain_def)

lemma append_too_many:
  "check_effect self name = Inr n \<Longrightarrow> flatten (wrap_eargs eargs) = Some opts \<Longrightarrow>
     MAX_EFFECT_OPTS self < int (length opts) \<Longrightarrow>
     append_effect_to_chain self name eargs =
       Some (self, Inl (RuntimeError (too_many_msg (length opts) (MAX_EFFECT_OPTS self))))"
  by (simp add: append_effect_to_chain_def)

lemma append_ok:
  "check_effect self name = Inr n \<Longrightarrow> flatten (wrap_eargs eargs) = Some opts \<Longrightarrow>
     int (length opts) \<le> MAX_EFFECT_OPTS self \<Longrightarrow>
     append_effect_to_chain self name eargs =
       Some (self\<lparr>chain_list := chain_list self @ [\<lparr>ename = n, eopts = opts\<rparr>]\<rparr>, Inr ())"
  by (simp add: append_effect_to_chain_def)

lemma append_no_return:
  "check_effect self name = Inr n \<Longrightarrow> flatten (wrap_eargs eargs) = None \<Longrightarrow>
     append_effect_to_chain self name eargs = None"
  by (simp add: append_effect_to_chain_def)

lemma append_error_frame:
  assumes "append_effect_to_chain self name eargs = Some (self', Inl err)"
  shows "self' = self"
  using assms
  by (auto simp: append_effect_to_chain_def split: sum.splits option.splits if_splits)

lemma append_success_shape:
  assumes "append_effect_to_chain self name eargs = Some (self', Inr u)"
  shows "\<exists>opts. self' = self\<lparr>chain_list := chain_list self @ [\<lparr>ename = lower name, eopts = opts\<rparr>]\<rparr>
           \<and> check_effect self name = Inr (lower name)
           \<and> flatten (wrap_eargs eargs) = Some opts
           \<and> int (length opts) \<le> MAX_EFFECT_OPTS self"
  using assms
  by (auto simp: append_effect_to_chain_def check_effect_def
           split: sum.splits option.splits if_splits)

text \<open>
  C1. The claim: absent or empty arguments store \<open>[""]\<close>, a scalar stores the one-element
  list of its string, and a nested list stores its depth-first flattening, so that
  \<open>[[16000]]\<close> and \<open>16000\<close> store the same \<open>["16000"]\<close>. The code does the first two
  (\<open>wrap_eargs_absent\<close>, \<open>wrap_eargs_empty\<close>, \<open>wrap_eargs_scalar\<close>) and flattens a
  list that holds no list (\<open>wrap_eargs_flat\<close>); for a list that holds a list the call
  never returns and stores nothing.
\<close>

theorem append_nested_never_returns:
  assumes "check_effect self name = Inr n" and "list_ex isinstance_list l"
  shows "append_effect_to_chain self name (Some (PList l)) = None"
  using assms by (simp add: append_no_return wrap_eargs_nested)

theorem append_nested_never_returns_witness:
  "check_effect demo_chain ''rate'' = Inr ''rate''
   \<and> list_ex isinstance_list [PList [PInt 16000]]
   \<and> append_effect_to_chain demo_chain ''rate'' (Some (PList [PList [PInt 16000]])) = None
   \<and> append_effect_to_chain demo_chain ''rate'' (Some (PInt 16000)) =
       Some (demo_chain\<lparr>chain_list := [\<lparr>ename = ''rate'', eopts = [''16000'']\<rparr>]\<rparr>, Inr ())"
proof -
  have v: "check_effect demo_chain ''rate'' = Inr ''rate''"
    by (rule check_effect_demo_rate)
  have n: "list_ex isinstance_list [PList [PInt 16000]]"
    by simp
  have f: "flatten (wrap_eargs (Some (PInt 16000))) = Some [''16000'']"
    by (simp add: wrap_eargs_scalar str_int_16000)
  have m: "int (length [''16000'']) \<le> MAX_EFFECT_OPTS demo_chain"
    by (simp add: demo_chain_eval)
  have c: "chain_list demo_chain = []"
    by (simp add: demo_chain_eval)
  show ?thesis
    using append_nested_never_returns [OF v n] append_ok [OF v f m] v n c by simp
qed

text \<open>
  C5. Validation looks at the lower-cased name only: in the unimplemented set it fails
  with \<open>NotImplementedError\<close>, otherwise absent from the registry snapshot it fails with
  \<open>LookupError\<close>, otherwise it returns the lower-cased name; \<open>append_effect_to_chain\<close>
  ends with the same exception and the chain object as it was.
\<close>

theorem check_effect_cases:
  "(lower e \<in> EFFECTS_UNIMPLEMENTED \<longrightarrow>
      check_effect self e =
        Inl (NotImplementedError (''This effect ('' @ e @ '') is not implement in torchaudio'')))
   \<and> (lower e \<notin> EFFECTS_UNIMPLEMENTED \<and> lower e \<notin> EFFECTS_AVAILABLE self \<longrightarrow>
      check_effect self e = Inl (LookupError (''Effect name, '' @ lower e @ '', not valid'')))
   \<and> (lower e \<notin> EFFECTS_UNIMPLEMENTED \<and> lower e \<in> EFFECTS_AVAILABLE self \<longrightarrow>
      check_effect self e = Inr (lower e))
   \<and> (\<forall>err. check_effect self e = Inl err \<longrightarrow>
      append_effect_to_chain self e eargs = Some (self, Inl err))"
  by (simp add: check_effect_def append_invalid)

theorem check_effect_cases_witness:
  "lower ''FIR'' \<in> EFFECTS_UNIMPLEMENTED
   \<and> check_effect demo_chain ''FIR'' =
       Inl (NotImplementedError ''This effect (FIR) is not implement in torchaudio'')
   \<and> append_effect_to_chain demo_chain ''FIR'' None =
       Some (demo_chain, Inl (NotImplementedError ''This effect (FIR) is not implement in torchaudio''))
   \<and> lower ''Reverb'' \<notin> EFFECTS_UNIMPLEMENTED \<and> lower ''Reverb'' \<notin> EFFECTS_AVAILABLE demo_chain
   \<and> check_effect demo_chain ''Reverb'' = Inl (LookupError ''Effect name, reverb, not valid'')
   \<and> append_effect_to_chain demo_chain ''Reverb'' None =
       Some (demo_chain, Inl (LookupError ''Effect name, reverb, not valid''))
   \<and> lower ''RATE'' \<notin> EFFECTS_UNIMPLEMENTED \<and> lower ''RATE'' \<in> EFFECTS_AVAILABLE demo_chain
   \<and> check_effect demo_chain ''RATE'' = Inr ''rate''"
proof -
  have l1: "lower ''FIR'' = ''fir''" and l2: "lower ''Reverb'' = ''reverb''"
    and l3: "lower ''RATE'' = ''rate''"
    by (simp_all add: lower_eval)
  have u1: "lower ''FIR'' \<in> EFFECTS_UNIMPLEMENTED"
    by (simp add: l1 EFFECTS_UNIMPLEMENTED_def)
  have u2: "lower ''Reverb'' \<notin> EFFECTS_UNIMPLEMENTED \<and> lower ''Reverb'' \<notin> EFFECTS_AVAILABLE demo_chain"
    by (simp add: l2 demo_chain_eval)
  have u3: "lower ''RATE'' \<notin> EFFECTS_UNIMPLEMENTED \<and> lower ''RATE'' \<in> EFFECTS_AVAILABLE demo_chain"
    by (simp add: l3 demo_chain_eval)
  show ?thesis
    using check_effect_cases [of "''FIR''" demo_chain None]
      check_effect_cases [of "''Reverb''" demo_chain None]
      check_effect_cases [of "''RATE''" demo_chain None] u1 u2 u3
    by (simp add: l1 l2 l3)
qed

lemma append_failure_leaves_chain:
  "(check_effect self name = Inr n \<and> flatten (wrap_eargs eargs) = Some opts
      \<and> MAX_EFFECT_OPTS self < int (length opts) \<longrightarrow>
      append_effect_to_chain self name eargs =
        Some (self, Inl (RuntimeError (too_many_msg (length opts) (MAX_EFFECT_OPTS self)))))
   \<and> (append_effect_to_chain self name eargs = Some (self', Inl err) \<longrightarrow>
        self' = self \<and> chain_list self' = chain_list self)"
  using append_too_many [of self name n eargs opts] append_error_frame [of self name eargs self' err]
  by auto

lemma spec_flatten_leaf: "\<not> isinstance_list v \<Longrightarrow> spec_flatten v = [str v]"
  by (cases v) simp_all

lemma spec_flatten_flat:
  assumes "\<not> list_ex isinstance_list l"
  shows "spec_flatten (PList l) = map str l"
proof -
  from assms have "concat (map spec_flatten l) = map str l"
    by (induction l) (simp_all add: spec_flatten_leaf)
  then show ?thesis by simp
qed

text \<open>
  C6. The claim: a call whose flattened argument sequence is longer than
  \<open>MAX_EFFECT_OPTS\<close> fails with the error about the number of options, and a failing
  call leaves the chain as it was. The code does both when \<open>_flatten\<close> returns
  (\<open>append_failure_leaves_chain\<close>): the list of 21 integers raises the
  \<open>RuntimeError\<close>. The same 21 integers inside one more list flatten, in the
  specification's sense, to 21 options as well, but \<open>_flatten\<close> never returns on them,
  line 183 is not reached and no such error is raised.
\<close>

theorem append_nested_too_many_never_returns:
  "check_effect demo_chain ''rate'' = Inr ''rate''
   \<and> MAX_EFFECT_OPTS demo_chain = 20
   \<and> length (spec_flatten (PList opts21)) = 21
   \<and> append_effect_to_chain demo_chain ''rate'' (Some (PList opts21)) =
       Some (demo_chain, Inl (RuntimeError (too_many_msg 21 20)))
   \<and> length (spec_flatten (PList [PList opts21])) = 21
   \<and> append_effect_to_chain demo_chain ''rate'' (Some (PList [PList opts21])) = None"
proof -
  have f: "flatten (wrap_eargs (Some (PList opts21))) = Some (map str opts21)"
    by (rule wrap_eargs_flat) (simp_all add: opts21_def)
  have m: "MAX_EFFECT_OPTS demo_chain = 20" "length (map str opts21) = 21"
    by (simp_all add: demo_chain_eval opts21_def)
  have s1: "spec_flatten (PList opts21) = map str opts21"
    by (rule spec_flatten_flat) (simp add: opts21_def)
  have s2: "spec_flatten (PList [PList opts21]) = map str opts21"
    using s1 by simp
  have a1: "append_effect_to_chain demo_chain ''rate'' (Some (PList opts21)) =
       Some (demo_chain, Inl (RuntimeError (too_many_msg 21 20)))"
    using append_too_many [OF check_effect_demo_rate f] m by simp
  have a2: "append_effect_to_chain demo_chain ''rate'' (Some (PList [PList opts21])) = None"
    by (rule append_no_return [OF check_effect_demo_rate]) (simp add: wrap_eargs_nested)
  from check_effect_demo_rate m s1 s2 a1 a2 show ?thesis by simp
qed

text \<open>
  C7, as stated, fails: a name that is in the registry snapshot (and not in the
  unimplemented set) but is not lower-case is looked up lower-cased and rejected.
\<close>

theorem append_snapshot_name_rejected:
  "''Rate'' \<in> EFFECTS_AVAILABLE demo_chain_upper - EFFECTS_UNIMPLEMENTED
   \<and> flatten (wrap_eargs None) = Some ['''']
   \<and> int (length ['''']) \<le> MAX_EFFECT_OPTS demo_chain_upper
   \<and> append_effect_to_chain demo_chain_upper ''Rate'' None =
       Some (demo_chain_upper, Inl (LookupError ''Effect name, rate, not valid''))"
  by (simp add: wrap_eargs_absent append_effect_to_chain_def check_effect_def
        demo_chain_upper_def demo_chain_eval lower_eval)

text \<open>
  C7, amended. For every name whose lower-cased form is in the registry snapshot and not
  in the unimplemented set, and every argument for which \<open>_flatten\<close> returns at most
  \<open>MAX_EFFECT_OPTS\<close> options, the call succeeds and the chain is the old one with one
  entry more at its end, named by the lower-cased name; so two successful appends of
  \<open>a\<close> then \<open>b\<close> leave the two entries at the end in that order (equal names included).
\<close>

theorem append_valid_grows:
  "(lower name \<in> EFFECTS_AVAILABLE self - EFFECTS_UNIMPLEMENTED
      \<and> flatten (wrap_eargs eargs) = Some opts
      \<and> int (length opts) \<le> MAX_EFFECT_OPTS self \<longrightarrow>
      append_effect_to_chain self name eargs =
        Some (self\<lparr>chain_list := chain_list self @ [\<lparr>ename = lower name, eopts = opts\<rparr>]\<rparr>,
              Inr ()))
   \<and> (append_effect_to_chain self a ea = Some (s1, Inr ())
      \<and> append_effect_to_chain s1 b eb = Some (s2, Inr ()) \<longrightarrow>
      length (chain_list s1) = length (chain_list self) + 1
      \<and> length (chain_list s2) = length (chain_list self) + 2
      \<and> (\<exists>oa ob. chain_list s2 =
            chain_list self @ [\<lparr>ename = lower a, eopts = oa\<rparr>, \<lparr>ename = lower b, eopts = ob\<rparr>]))"
proof (intro conjI impI)
  assume h: "lower name \<in> EFFECTS_AVAILABLE self - EFFECTS_UNIMPLEMENTED
      \<and> flatten (wrap_eargs eargs) = Some opts
      \<and> int (length opts) \<le> MAX_EFFECT_OPTS self"
  then have "check_effect self name = Inr (lower name)"
    by (simp add: check_effect_def)
  with h show "append_effect_to_chain self name eargs =
        Some (self\<lparr>chain_list := chain_list self @ [\<lparr>ename = lower name, eopts = opts\<rparr>]\<rparr>,
              Inr ())"
    by (simp add: append_ok)
next
  assume h: "append_effect_to_chain self a ea = Some (s1, Inr ())
      \<and> append_effect_to_chain s1 b eb = Some (s2, Inr ())"
  from h obtain oa where
    s1: "s1 = self\<lparr>chain_list := chain_list self @ [\<lparr>ename = lower a, eopts = oa\<rparr>]\<rparr>"
    using append_success_shape [of self a ea s1 "()"] by blast
  from h obtain ob where
    s2: "s2 = s1\<lparr>chain_list := chain_list s1 @ [\<lparr>ename = lower b, eopts = ob\<rparr>]\<rparr>"
    using append_success_shape [of s1 b eb s2 "()"] by blast
  show "length (chain_list s1) = length (chain_list self) + 1"
    by (simp add: s1)
  show "length (chain_list s2) = length (chain_list self) + 2"
    by (simp add: s1 s2)
  show "\<exists>oa ob. chain_list s2 =
          chain_list self @ [\<lparr>ename = lower a, eopts = oa\<rparr>, \<lparr>ename = lower b, eopts = ob\<rparr>]"
    by (simp add: s1 s2)
qed

theorem append_valid_grows_witness:
  "lower ''Rate'' \<in> EFFECTS_AVAILABLE demo_chain - EFFECTS_UNIMPLEMENTED
   \<and> flatten (wrap_eargs (Some (PList [PInt 16000]))) = Some [''16000'']
   \<and> int (length [''16000'']) \<le> MAX_EFFECT_OPTS demo_chain
   \<and> append_effect_to_chain demo_chain ''Rate'' (Some (PList [PInt 16000])) =
       Some (demo_chain\<lparr>chain_list := [\<lparr>ename = ''rate'', eopts = [''16000'']\<rparr>]\<rparr>, Inr ())
   \<and> append_effect_to_chain
         (demo_chain\<lparr>chain_list := [\<lparr>ename = ''rate'', eopts = [''16000'']\<rparr>]\<rparr>)
         ''rate'' (Some (PStr ''8000'')) =
       Some (demo_chain\<lparr>chain_list := [\<lparr>ename = ''rate'', eopts = [''16000'']\<rparr>,
                                       \<lparr>ename = ''rate'', eopts = [''8000'']\<rparr>]\<rparr>, Inr ())
   \<and> length (chain_list (demo_chain\<lparr>chain_list := [\<lparr>ename = ''rate'', eopts = [''16000'']\<rparr>,
                                       \<lparr>ename = ''rate'', eopts = [''8000'']\<rparr>]\<rparr>)) =
       length (chain_list demo_chain) + 2"
proof -
  let ?s1 = "demo_chain\<lparr>chain_list := [\<lparr>ename = ''rate'', eopts = [''16000'']\<rparr>]\<rparr>"
  let ?s2 = "demo_chain\<lparr>chain_list := [\<lparr>ename = ''rate'', eopts = [''16000'']\<rparr>,
                                       \<lparr>ename = ''rate'', eopts = [''8000'']\<rparr>]\<rparr>"
  have l: "lower ''Rate'' = ''rate''" "lower ''rate'' = ''rate''"
    by (simp_all add: lower_eval)
  have c: "chain_list demo_chain = []" "MAX_EFFECT_OPTS demo_chain = 20"
    "EFFECTS_AVAILABLE demo_chain = {''rate'', ''channels'', ''fir''}"
    by (simp_all add: demo_chain_eval)
  have v: "lower ''Rate'' \<in> EFFECTS_AVAILABLE demo_chain - EFFECTS_UNIMPLEMENTED"
    by (simp add: l c EFFECTS_UNIMPLEMENTED_def)
  have v2: "lower ''rate'' \<in> EFFECTS_AVAILABLE ?s1 - EFFECTS_UNIMPLEMENTED"
    by (simp add: l c EFFECTS_UNIMPLEMENTED_def)
  have f: "flatten (wrap_eargs (Some (PList [PInt 16000]))) = Some [''16000'']"
    by (simp add: wrap_eargs_flat str_int_16000)
  have f2: "flatten (wrap_eargs (Some (PStr ''8000''))) = Some [''8000'']"
    by (simp add: wrap_eargs_scalar)
  have a1: "append_effect_to_chain demo_chain ''Rate'' (Some (PList [PInt 16000])) =
              Some (?s1, Inr ())"
    using append_valid_grows [of "''Rate''" demo_chain "Some (PList [PInt 16000])" "[''16000'']"]
      v f by (simp add: l c)
  have a2: "append_effect_to_chain ?s1 ''rate'' (Some (PStr ''8000'')) = Some (?s2, Inr ())"
    using append_valid_grows [of "''rate''" ?s1 "Some (PStr ''8000'')" "[''8000'']"]
      v2 f2 by (simp add: l c)
  show ?thesis
    using append_valid_grows
      [where self = demo_chain and a = "''Rate''" and ea = "Some (PList [PInt 16000])"
         and ?s1.0 = ?s1 and b = "''rate''" and eb = "Some (PStr ''8000'')" and ?s2.0 = ?s2]
      a1 a2 v f
    by (simp add: c)
qed

text \<open>
  C10, as stated, fails in its parenthesis: a spelling of a snapshot entry with an
  upper-case letter is not always rejected as "not found". Its lower-cased form may be
  in the unimplemented set (then the error is \<open>NotImplementedError\<close>), or be another
  entry of the snapshot (then the name validates, to that other entry).
\<close>

theorem upper_entry_spelling_not_lookup_error:
  "''Fir'' \<in> EFFECTS_AVAILABLE demo_chain_upper \<and> has_ascii_upper ''Fir''
   \<and> check_effect demo_chain_upper ''Fir'' =
       Inl (NotImplementedError ''This effect (Fir) is not implement in torchaudio'')
   \<and> ''Echo'' \<in> EFFECTS_AVAILABLE demo_chain_upper \<and> has_ascii_upper ''Echo''
   \<and> check_effect demo_chain_upper ''Echo'' = Inr ''echo''"
  by (simp add: check_effect_def has_ascii_upper_def demo_chain_upper_def demo_chain_eval lower_eval)

section \<open>Execution\<close>

lemma sox_build_flow_effects_state:
  "fst (sox_build_flow_effects ext self out) =
     (if chain_list self = [] \<and> out_accepted ext out
      then self\<lparr>chain_list := [no_effects]\<rparr> else self)"
  by (simp add: sox_build_flow_effects_def out_accepted_def Let_def
           split: option.splits sum.splits prod.splits)

text \<open>
  C10, amended. Validation tests literal membership of the lower-cased candidate in the
  snapshot taken by \<open>__init__\<close>: no input validates to a snapshot entry that has an
  ASCII upper-case letter; a spelling of such an entry (a name with the same lower-cased
  form) is rejected as unimplemented when that form is in the unimplemented set,
  otherwise rejected as not found when that form is no entry of the snapshot, and
  otherwise validates to that other, lower-case entry; and no operation on the chain
  changes the snapshot.
\<close>

theorem upper_entry_never_validates:
  "(s \<in> EFFECTS_AVAILABLE self \<and> has_ascii_upper s \<longrightarrow>
      check_effect self e \<noteq> Inr s \<and> lower s \<noteq> s)
   \<and> (s \<in> EFFECTS_AVAILABLE self \<and> has_ascii_upper s \<and> lower e = lower s \<longrightarrow>
      check_effect self e =
        (if lower s \<in> EFFECTS_UNIMPLEMENTED then
           Inl (NotImplementedError
                  (''This effect ('' @ e @ '') is not implement in torchaudio''))
         else if lower s \<notin> EFFECTS_AVAILABLE self then
           Inl (LookupError (''Effect name, '' @ lower s @ '', not valid''))
         else Inr (lower s)))
   \<and> EFFECTS_AVAILABLE (clear_chain self) = EFFECTS_AVAILABLE self
   \<and> EFFECTS_AVAILABLE (set_input_file self f) = EFFECTS_AVAILABLE self
   \<and> EFFECTS_AVAILABLE (fst (sox_build_flow_effects ext self out)) = EFFECTS_AVAILABLE self
   \<and> (append_effect_to_chain self name eargs = Some (self', r) \<longrightarrow>
        EFFECTS_AVAILABLE self' = EFFECTS_AVAILABLE self)"
proof (intro conjI impI)
  assume h: "s \<in> EFFECTS_AVAILABLE self \<and> has_ascii_upper s"
  show "check_effect self e \<noteq> Inr s"
  proof
    assume "check_effect self e = Inr s"
    then have "s = lower e"
      by (auto simp: check_effect_def split: if_splits)
    with h lower_no_upper [of e] show False by simp
  qed
next
  assume h: "s \<in> EFFECTS_AVAILABLE self \<and> has_ascii_upper s"
  show "lower s \<noteq> s"
  proof
    assume "lower s = s"
    with h lower_no_upper [of s] show False by simp
  qed
next
  assume "s \<in> EFFECTS_AVAILABLE self \<and> has_ascii_upper s \<and> lower e = lower s"
  then show "check_effect self e =
        (if lower s \<in> EFFECTS_UNIMPLEMENTED then
           Inl (NotImplementedError
                  (''This effect ('' @ e @ '') is not implement in torchaudio''))
         else if lower s \<notin> EFFECTS_AVAILABLE self then
           Inl (LookupError (''Effect name, '' @ lower s @ '', not valid''))
         else Inr (lower s))"
    by (simp add: check_effect_def)
next
  show "EFFECTS_AVAILABLE (clear_chain self) = EFFECTS_AVAILABLE self"
    by (simp add: clear_chain_def)
next
  show "EFFECTS_AVAILABLE (set_input_file self f) = EFFECTS_AVAILABLE self"
    by (simp add: set_input_file_def)
next
  show "EFFECTS_AVAILABLE (fst (sox_build_flow_effects ext self out)) = EFFECTS_AVAILABLE self"
    by (simp add: sox_build_flow_effects_state)
next
  assume a: "append_effect_to_chain self name eargs = Some (self', r)"
  show "EFFECTS_AVAILABLE self' = EFFECTS_AVAILABLE self"
  proof (cases r)
    case (Inl err)
    with a append_error_frame [of self name eargs self' err] show ?thesis by simp
  next
    case (Inr u)
    with a append_success_shape [of self name eargs self' u] show ?thesis by auto
  qed
qed

theorem upper_entry_never_validates_witness:
  "''Rate'' \<in> EFFECTS_AVAILABLE demo_chain_upper \<and> has_ascii_upper ''Rate''
   \<and> lower ''RATE'' = lower ''Rate''
   \<and> check_effect demo_chain_upper ''RATE'' \<noteq> Inr ''Rate''
   \<and> check_effect demo_chain_upper ''RATE'' = Inl (LookupError ''Effect name, rate, not valid'')
   \<and> ''Fir'' \<in> EFFECTS_AVAILABLE demo_chain_upper \<and> has_ascii_upper ''Fir''
   \<and> lower ''FIR'' = lower ''Fir''
   \<and> check_effect demo_chain_upper ''FIR'' =
       Inl (NotImplementedError ''This effect (FIR) is not implement in torchaudio'')
   \<and> ''Echo'' \<in> EFFECTS_AVAILABLE demo_chain_upper \<and> has_ascii_upper ''Echo''
   \<and> lower ''ECHO'' = lower ''Echo''
   \<and> check_effect demo_chain_upper ''ECHO'' = Inr ''echo''
   \<and> append_effect_to_chain demo_chain_upper ''echo'' None =
       Some (demo_chain_upper\<lparr>chain_list := [\<lparr>ename = ''echo'', eopts = ['''']\<rparr>]\<rparr>, Inr ())
   \<and> EFFECTS_AVAILABLE (demo_chain_upper\<lparr>chain_list := [\<lparr>ename = ''echo'', eopts = ['''']\<rparr>]\<rparr>) =
       EFFECTS_AVAILABLE demo_chain_upper"
proof -
  let ?s = "demo_chain_upper\<lparr>chain_list := [\<lparr>ename = ''echo'', eopts = ['''']\<rparr>]\<rparr>"
  have l: "lower ''RATE'' = ''rate''" "lower ''Rate'' = ''rate''"
    "lower ''FIR'' = ''fir''" "lower ''Fir'' = ''fir''"
    "lower ''ECHO'' = ''echo''" "lower ''Echo'' = ''echo''"
    by (simp_all add: lower_eval)
  have av: "EFFECTS_AVAILABLE demo_chain_upper = {''Rate'', ''Fir'', ''Echo'', ''echo''}"
    by (simp add: demo_chain_upper_def demo_chain_eval)
  have u: "has_ascii_upper ''Rate''" "has_ascii_upper ''Fir''" "has_ascii_upper ''Echo''"
    by (simp_all add: has_ascii_upper_def ascii_uppercase_def)
  have a: "append_effect_to_chain demo_chain_upper ''echo'' None = Some (?s, Inr ())"
    by (simp add: wrap_eargs_absent append_effect_to_chain_def check_effect_def
          demo_chain_upper_def demo_chain_eval lower_eval)
  note t1 = upper_entry_never_validates
      [where s = "''Rate''" and self = demo_chain_upper and e = "''RATE''"
         and name = "''echo''" and eargs = None and self' = ?s and r = "Inr ()"
         and f = "''a.wav''" and ext = demo_flow_ext and out = None]
  note t2 = upper_entry_never_validates
      [where s = "''Fir''" and self = demo_chain_upper and e = "''FIR''"
         and name = "''echo''" and eargs = None and self' = ?s and r = "Inr ()"
         and f = "''a.wav''" and ext = demo_flow_ext and out = None]
  note t3 = upper_entry_never_validates
      [where s = "''Echo''" and self = demo_chain_upper and e = "''ECHO''"
         and name = "''echo''" and eargs = None and self' = ?s and r = "Inr ()"
         and f = "''a.wav''" and ext = demo_flow_ext and out = None]
  have m: "''Rate'' \<in> EFFECTS_AVAILABLE demo_chain_upper"
    "''Fir'' \<in> EFFECTS_AVAILABLE demo_chain_upper"
    "''Echo'' \<in> EFFECTS_AVAILABLE demo_chain_upper"
    by (simp_all add: av)
  have r1: "check_effect demo_chain_upper ''RATE'' \<noteq> Inr ''Rate''
     \<and> check_effect demo_chain_upper ''RATE'' = Inl (LookupError ''Effect name, rate, not valid'')"
    using t1 u m by (simp add: l av EFFECTS_UNIMPLEMENTED_def)
  have r2: "check_effect demo_chain_upper ''FIR'' =
       Inl (NotImplementedError ''This effect (FIR) is not implement in torchaudio'')"
    using t2 u m by (simp add: l av EFFECTS_UNIMPLEMENTED_def)
  have r3: "check_effect demo_chain_upper ''ECHO'' = Inr ''echo''"
    using t3 u m by (simp add: l av EFFECTS_UNIMPLEMENTED_def)
  have r4: "EFFECTS_AVAILABLE ?s = EFFECTS_AVAILABLE demo_chain_upper"
    using t1 a by blast
  from r1 r2 r3 r4 a u m show ?thesis by (simp add: l)
qed

lemma sox_build_flow_effects_empty:
  "chain_list self = [] \<Longrightarrow>
     sox_build_flow_effects ext self None =
       (self\<lparr>chain_list := [no_effects]\<rparr>,
        case build_flow_effects ext (input_file self) (FloatTensor ext) (channels_first self)
               (out_siginfo self) (out_encinfo self) (filetype self) [no_effects]
               (MAX_EFFECT_OPTS self) of
          Inl err \<Rightarrow> Inl err
        | Inr (out2, sr) \<Rightarrow>
            (case normalize_audio ext out2 (normalization self) of
               Inl err \<Rightarrow> Inl err
             | Inr out3 \<Rightarrow> Inr (out3, sr)))"
  by (simp add: sox_build_flow_effects_def split: sum.splits prod.splits)

text \<open>
  C3, as stated, fails: after \<open>sox_build_flow_effects\<close> on an empty chain the stored
  chain is not empty; it holds the sentinel, which line 213 appends to \<open>self.chain\<close>
  and nothing removes.
\<close>

theorem execute_empty_chain_keeps_sentinel:
  "chain_list demo_chain = []
   \<and> snd (sox_build_flow_effects demo_flow_ext demo_chain None) = Inr ([0, 0], 16000)
   \<and> chain_list (fst (sox_build_flow_effects demo_flow_ext demo_chain None)) =
       [\<lparr>ename = ''no_effects'', eopts = ['''']\<rparr>]
   \<and> chain_list (fst (sox_build_flow_effects demo_flow_ext demo_chain None)) \<noteq> []"
  by (simp add: sox_build_flow_effects_def demo_flow_ext_def demo_chain_eval no_effects_def)

lemma sox_build_flow_effects_accepted:
  "out_accepted ext out \<Longrightarrow>
     sox_build_flow_effects ext self out =
       (if chain_list self = [] then self\<lparr>chain_list := [no_effects]\<rparr> else self,
        case build_flow_effects ext (input_file self) (out_tensor ext out) (channels_first self)
               (out_siginfo self) (out_encinfo self) (filetype self)
               (if chain_list self = [] then [no_effects] else chain_list self)
               (MAX_EFFECT_OPTS self) of
          Inl err \<Rightarrow> Inl err
        | Inr (out2, sr) \<Rightarrow>
            (case normalize_audio ext out2 (normalization self) of
               Inl err \<Rightarrow> Inl err
             | Inr out3 \<Rightarrow> Inr (out3, sr)))"
  by (cases out)
     (simp_all add: sox_build_flow_effects_def out_accepted_def out_tensor_def
        split: sum.splits prod.splits)

text \<open>
  C3, amended. On a chain whose effect sequence is empty, \<open>sox_build_flow_effects\<close>
  (once past the check of \<open>out\<close>, with or without a tensor supplied) appends one
  sentinel effect \<open>no_effects\<close> with the single option \<open>""\<close> to the stored chain and
  hands that one-element chain to the engine; the sentinel stays in the chain after the
  call, whatever the engine returns, so a later execution finds the chain non-empty and
  changes nothing; a non-empty chain is handed to the engine as it is and never changed,
  nor is any other field; and after \<open>clear_chain\<close> the next execution appends the
  sentinel again.
\<close>

theorem execute_appends_sentinel:
  "fst (sox_build_flow_effects ext self out) =
     (if chain_list self = [] \<and> out_accepted ext out
      then self\<lparr>chain_list := [no_effects]\<rparr> else self)
   \<and> (chain_list self = [] \<and> out_accepted ext out \<longrightarrow>
        sox_build_flow_effects ext self out =
          (self\<lparr>chain_list := [no_effects]\<rparr>,
           case build_flow_effects ext (input_file self) (out_tensor ext out)
                  (channels_first self) (out_siginfo self) (out_encinfo self) (filetype self)
                  [no_effects] (MAX_EFFECT_OPTS self) of
             Inl err \<Rightarrow> Inl err
           | Inr (out2, sr) \<Rightarrow>
               (case normalize_audio ext out2 (normalization self) of
                  Inl err \<Rightarrow> Inl err
                | Inr out3 \<Rightarrow> Inr (out3, sr))))
   \<and> (chain_list self \<noteq> [] \<and> out_accepted ext out \<longrightarrow>
        sox_build_flow_effects ext self out =
          (self,
           case build_flow_effects ext (input_file self) (out_tensor ext out)
                  (channels_first self) (out_siginfo self) (out_encinfo self) (filetype self)
                  (chain_list self) (MAX_EFFECT_OPTS self) of
             Inl err \<Rightarrow> Inl err
           | Inr (out2, sr) \<Rightarrow>
               (case normalize_audio ext out2 (normalization self) of
                  Inl err \<Rightarrow> Inl err
                | Inr out3 \<Rightarrow> Inr (out3, sr))))
   \<and> (chain_list self = [] \<and> out_accepted ext out \<longrightarrow>
        fst (sox_build_flow_effects ext (fst (sox_build_flow_effects ext self out)) out') =
          self\<lparr>chain_list := [no_effects]\<rparr>)
   \<and> fst (sox_build_flow_effects ext
             (clear_chain (fst (sox_build_flow_effects ext self out))) None) =
       self\<lparr>chain_list := [no_effects]\<rparr>"
proof (intro conjI impI)
  show "fst (sox_build_flow_effects ext self out) =
     (if chain_list self = [] \<and> out_accepted ext out
      then self\<lparr>chain_list := [no_effects]\<rparr> else self)"
    by (rule sox_build_flow_effects_state)
next
  assume h: "chain_list self = [] \<and> out_accepted ext out"
  then have "out_accepted ext out" by simp
  from sox_build_flow_effects_accepted [OF this, of self] h
  show "sox_build_flow_effects ext self out =
          (self\<lparr>chain_list := [no_effects]\<rparr>,
           case build_flow_effects ext (input_file self) (out_tensor ext out)
                  (channels_first self) (out_siginfo self) (out_encinfo self) (filetype self)
                  [no_effects] (MAX_EFFECT_OPTS self) of
             Inl err \<Rightarrow> Inl err
           | Inr (out2, sr) \<Rightarrow>
               (case normalize_audio ext out2 (normalization self) of
                  Inl err \<Rightarrow> Inl err
                | Inr out3 \<Rightarrow> Inr (out3, sr)))"
    by simp
next
  assume h: "chain_list self \<noteq> [] \<and> out_accepted ext out"
  then have "out_accepted ext out" by simp
  from sox_build_flow_effects_accepted [OF this, of self] h
  show "sox_build_flow_effects ext self out =
          (self,
           case build_flow_effects ext (input_file self) (out_tensor ext out)
                  (channels_first self) (out_siginfo self) (out_encinfo self) (filetype self)
                  (chain_list self) (MAX_EFFECT_OPTS self) of
             Inl err \<Rightarrow> Inl err
           | Inr (out2, sr) \<Rightarrow>
               (case normalize_audio ext out2 (normalization self) of
                  Inl err \<Rightarrow> Inl err
                | Inr out3 \<Rightarrow> Inr (out3, sr)))"
    by simp
next
  assume "chain_list self = [] \<and> out_accepted ext out"
  then show "fst (sox_build_flow_effects ext (fst (sox_build_flow_effects ext self out)) out') =
          self\<lparr>chain_list := [no_effects]\<rparr>"
    by (simp add: sox_build_flow_effects_state)
next
  show "fst (sox_build_flow_effects ext
             (clear_chain (fst (sox_build_flow_effects ext self out))) None) =
       self\<lparr>chain_list := [no_effects]\<rparr>"
    by (simp add: sox_build_flow_effects_state clear_chain_def out_accepted_def)
qed

theorem execute_appends_sentinel_witness:
  "chain_list demo_chain = [] \<and> out_accepted demo_flow_probe (Some [1, 2])
   \<and> sox_build_flow_effects demo_flow_probe demo_chain (Some [1, 2]) =
       (demo_chain\<lparr>chain_list := [no_effects]\<rparr>, Inr ([1, 2], 1))
   \<and> chain_list (demo_chain\<lparr>chain_list := [no_effects]\<rparr>) \<noteq> []
   \<and> out_accepted demo_flow_probe None
   \<and> sox_build_flow_effects demo_flow_probe (demo_chain\<lparr>chain_list := [no_effects]\<rparr>) None =
       (demo_chain\<lparr>chain_list := [no_effects]\<rparr>, Inr ([], 1))
   \<and> fst (sox_build_flow_effects demo_flow_probe
            (fst (sox_build_flow_effects demo_flow_probe demo_chain (Some [1, 2]))) None) =
       demo_chain\<lparr>chain_list := [no_effects]\<rparr>"
proof -
  let ?s = "demo_chain\<lparr>chain_list := [no_effects]\<rparr>"
  have c: "chain_list demo_chain = []"
    by (simp add: demo_chain_eval)
  have a: "out_accepted demo_flow_probe (Some [1, 2])" "out_accepted demo_flow_probe None"
    by (simp_all add: out_accepted_def demo_flow_probe_def)
  have o: "out_tensor demo_flow_probe (Some [1, 2]) = [1, 2]" "out_tensor demo_flow_probe None = []"
    by (simp_all add: out_tensor_def demo_flow_probe_def)
  have e: "build_flow_effects demo_flow_probe f t cf si ei ft ch m =
             (if ch = [] then Inl (ExternalError ''no effects'') else Inr (t, int (length ch)))"
    "normalize_audio demo_flow_probe t n = Inr t" for f t cf si ei ft ch m n
    by (simp_all add: demo_flow_probe_def)
  note t = execute_appends_sentinel
      [where ext = demo_flow_probe and self = demo_chain and out = "Some [1, 2]" and out' = None]
  note t' = execute_appends_sentinel
      [where ext = demo_flow_probe and self = ?s and out = None and out' = None]
  have t1: "sox_build_flow_effects demo_flow_probe demo_chain (Some [1, 2]) =
       (?s, Inr ([1, 2], 1))"
    using t c a by (simp add: e o)
  have n: "chain_list ?s \<noteq> []"
    by simp
  have t2: "sox_build_flow_effects demo_flow_probe ?s None = (?s, Inr ([], 1))"
    using t' n a by (simp add: e o)
  have t3: "fst (sox_build_flow_effects demo_flow_probe
            (fst (sox_build_flow_effects demo_flow_probe demo_chain (Some [1, 2]))) None) = ?s"
    using t c a by blast
  from c a t1 n t2 t3 show ?thesis by blast
qed

section \<open>Clearing\<close>

text \<open>
  C8. \<open>clear_chain\<close> leaves the effect sequence empty and every other field as it was;
  the execution that follows hands the engine the input file that was set before.
\<close>

theorem clear_chain_frame:
  "chain_list (clear_chain self) = []
   \<and> input_file (clear_chain self) = input_file self
   \<and> normalization (clear_chain self) = normalization self
   \<and> channels_first (clear_chain self) = channels_first self
   \<and> out_siginfo (clear_chain self) = out_siginfo self
   \<and> out_encinfo (clear_chain self) = out_encinfo self
   \<and> filetype (clear_chain self) = filetype self
   \<and> MAX_EFFECT_OPTS (clear_chain self) = MAX_EFFECT_OPTS self
   \<and> EFFECTS_AVAILABLE (clear_chain self) = EFFECTS_AVAILABLE self
   \<and> clear_chain self = self\<lparr>chain_list := []\<rparr>
   \<and> input_file (clear_chain (set_input_file self f)) = Some f
   \<and> snd (sox_build_flow_effects ext (clear_chain (set_input_file self f)) None) =
       (case build_flow_effects ext (Some f) (FloatTensor ext) (channels_first self)
               (out_siginfo self) (out_encinfo self) (filetype self) [no_effects]
               (MAX_EFFECT_OPTS self) of
          Inl err \<Rightarrow> Inl err
        | Inr (out2, sr) \<Rightarrow>
            (case normalize_audio ext out2 (normalization self) of
               Inl err \<Rightarrow> Inl err
             | Inr out3 \<Rightarrow> Inr (out3, sr)))"
proof -
  have "chain_list (clear_chain (set_input_file self f)) = []"
    by (simp add: clear_chain_def)
  from sox_build_flow_effects_empty [OF this, of ext]
  have "snd (sox_build_flow_effects ext (clear_chain (set_input_file self f)) None) =
       (case build_flow_effects ext (Some f) (FloatTensor ext) (channels_first self)
               (out_siginfo self) (out_encinfo self) (filetype self) [no_effects]
               (MAX_EFFECT_OPTS self) of
          Inl err \<Rightarrow> Inl err
        | Inr (out2, sr) \<Rightarrow>
            (case normalize_audio ext out2 (normalization self) of
               Inl err \<Rightarrow> Inl err
             | Inr out3 \<Rightarrow> Inr (out3, sr)))"
    by (simp add: clear_chain_def set_input_file_def cong: sum.case_cong)
  then show ?thesis
    by (simp add: clear_chain_def set_input_file_def)
qed

section \<open>Lifecycle\<close>

lemma shutdown_sox_flag:
  "SOX_INITIALIZED p = Some True \<Longrightarrow>
     SOX_INITIALIZED (fst (shutdown_sox ext p)) =
       (if fst (ext_shutdown_sox ext (engine p)) = 1 then None else Some True)"
  by (simp add: shutdown_sox_def truthy_def py_eq_int_flag_def py_eq_int_bool_def
           split: prod.splits)

lemma shutdown_sox_code:
  "SOX_INITIALIZED p = Some True \<Longrightarrow>
     snd (shutdown_sox ext p) = fst (ext_shutdown_sox ext (engine p))"
  by (simp add: shutdown_sox_def truthy_def split: prod.splits)

lemma shutdown_sox_not_initialized:
  "SOX_INITIALIZED p \<noteq> Some True \<Longrightarrow> shutdown_sox ext p = (p, SOX_SUCCESS_CODE)"
  by (simp add: shutdown_sox_def truthy_def)

lemma initialize_sox_shut_down:
  "SOX_INITIALIZED p = None \<Longrightarrow>
     initialize_sox ext p =
       (p, Inl (RuntimeError
          ''SoX effects chain has been already shut down. Can not initialize again.''))"
  by (simp add: initialize_sox_def)

lemma initialize_sox_initialized:
  "SOX_INITIALIZED p = Some True \<Longrightarrow> initialize_sox ext p = (p, Inr SOX_SUCCESS_CODE)"
  by (simp add: initialize_sox_def truthy_def)

lemma initialize_sox_uninitialized:
  "SOX_INITIALIZED p = Some False \<Longrightarrow>
     initialize_sox ext p =
       (if fst (ext_initialize_sox ext (engine p)) = SOX_SUCCESS_CODE
        then p\<lparr>SOX_INITIALIZED := Some True,
               atexit_hooks := atexit_hooks p @ [Hook_shutdown_sox],
               engine := snd (ext_initialize_sox ext (engine p))\<rparr>
        else p\<lparr>engine := snd (ext_initialize_sox ext (engine p))\<rparr>,
        Inr (fst (ext_initialize_sox ext (engine p))))"
  by (simp add: initialize_sox_def truthy_def split: prod.splits)

lemmas demo_lifecycle_eval = demo_lifecycle_def demo_process_def SOX_SUCCESS_CODE_def

text \<open>
  C4. The claim: a \<open>shutdown_sox\<close> in the initialized state whose engine call returns the
  success status 0 moves the flag to "shut down" for good, and every later
  \<open>initialize_sox\<close> raises. The code: line 72 compares the status with
  \<open>_SOX_INITIALIZED\<close>, which is \<open>True\<close> there, and \<open>0 == True\<close> is false; the flag
  stays \<open>True\<close> and the next \<open>initialize_sox\<close> returns 0. Only the status 1 moves
  the flag to \<open>None\<close> (\<open>shutdown_sox_flag\<close>).
\<close>

theorem shutdown_success_stays_initialized:
  "SOX_INITIALIZED p = Some True \<and> fst (ext_shutdown_sox ext (engine p)) = SOX_SUCCESS_CODE \<longrightarrow>
     snd (shutdown_sox ext p) = SOX_SUCCESS_CODE
     \<and> SOX_INITIALIZED (fst (shutdown_sox ext p)) = Some True
     \<and> snd (initialize_sox ext' (fst (shutdown_sox ext p))) = Inr SOX_SUCCESS_CODE"
proof
  assume h: "SOX_INITIALIZED p = Some True \<and> fst (ext_shutdown_sox ext (engine p)) = SOX_SUCCESS_CODE"
  then have f: "SOX_INITIALIZED (fst (shutdown_sox ext p)) = Some True"
    by (simp add: shutdown_sox_flag SOX_SUCCESS_CODE_def)
  from h have c: "snd (shutdown_sox ext p) = SOX_SUCCESS_CODE"
    by (simp add: shutdown_sox_code)
  from f have "snd (initialize_sox ext' (fst (shutdown_sox ext p))) = Inr SOX_SUCCESS_CODE"
    by (simp add: initialize_sox_initialized)
  with f c show "snd (shutdown_sox ext p) = SOX_SUCCESS_CODE
     \<and> SOX_INITIALIZED (fst (shutdown_sox ext p)) = Some True
     \<and> snd (initialize_sox ext' (fst (shutdown_sox ext p))) = Inr SOX_SUCCESS_CODE"
    by simp
qed

theorem shutdown_success_stays_initialized_witness:
  "SOX_INITIALIZED (demo_process (Some True) 2) = Some True
   \<and> fst (ext_shutdown_sox demo_lifecycle (engine (demo_process (Some True) 2))) = SOX_SUCCESS_CODE
   \<and> shutdown_sox demo_lifecycle (demo_process (Some True) 2) = (demo_process (Some True) 3, 0)
   \<and> snd (initialize_sox demo_lifecycle
            (fst (shutdown_sox demo_lifecycle (demo_process (Some True) 2)))) = Inr 0"
proof -
  have h: "SOX_INITIALIZED (demo_process (Some True) 2) = Some True
     \<and> fst (ext_shutdown_sox demo_lifecycle (engine (demo_process (Some True) 2))) = SOX_SUCCESS_CODE"
    by (simp add: demo_lifecycle_eval)
  have s: "shutdown_sox demo_lifecycle (demo_process (Some True) 2) = (demo_process (Some True) 3, 0)"
    by (simp add: shutdown_sox_def truthy_def py_eq_int_flag_def py_eq_int_bool_def
          demo_lifecycle_eval)
  from shutdown_success_stays_initialized
    [of "demo_process (Some True) 2" demo_lifecycle demo_lifecycle] h
  have "snd (initialize_sox demo_lifecycle
            (fst (shutdown_sox demo_lifecycle (demo_process (Some True) 2)))) = Inr 0"
    by (simp add: SOX_SUCCESS_CODE_def)
  with h s show ?thesis by simp
qed

text \<open>
  C9. In the uninitialized state, a failing engine call leaves the flag (and the exit
  hooks) as they were and its status is returned, so that a later call asks the engine
  again and, when the engine then succeeds, initializes; in the initialized state the
  call returns 0 and the whole process state, the engine's included, is the one
  before the call, whatever the engine would do.
\<close>

theorem initialize_sox_atomic_idempotent:
  "(SOX_INITIALIZED p = Some False
      \<and> fst (ext_initialize_sox ext (engine p)) \<noteq> SOX_SUCCESS_CODE \<longrightarrow>
      SOX_INITIALIZED (fst (initialize_sox ext p)) = Some False
      \<and> atexit_hooks (fst (initialize_sox ext p)) = atexit_hooks p
      \<and> snd (initialize_sox ext p) = Inr (fst (ext_initialize_sox ext (engine p))))
   \<and> (SOX_INITIALIZED p = Some False
      \<and> fst (ext_initialize_sox ext (engine p)) = SOX_SUCCESS_CODE \<longrightarrow>
      SOX_INITIALIZED (fst (initialize_sox ext p)) = Some True
      \<and> snd (initialize_sox ext p) = Inr SOX_SUCCESS_CODE)
   \<and> (SOX_INITIALIZED p = Some True \<longrightarrow>
      initialize_sox ext p = (p, Inr SOX_SUCCESS_CODE))"
  by (simp add: initialize_sox_uninitialized initialize_sox_initialized)

theorem initialize_sox_atomic_idempotent_witness:
  "SOX_INITIALIZED (demo_process (Some False) 0) = Some False
   \<and> fst (ext_initialize_sox demo_lifecycle (engine (demo_process (Some False) 0))) \<noteq> SOX_SUCCESS_CODE
   \<and> initialize_sox demo_lifecycle (demo_process (Some False) 0) =
       (demo_process (Some False) 1, Inr (- 1))
   \<and> fst (ext_initialize_sox demo_lifecycle (engine (demo_process (Some False) 1))) = SOX_SUCCESS_CODE
   \<and> SOX_INITIALIZED (fst (initialize_sox demo_lifecycle (demo_process (Some False) 1))) = Some True
   \<and> snd (initialize_sox demo_lifecycle (demo_process (Some False) 1)) = Inr 0
   \<and> initialize_sox demo_lifecycle (demo_process (Some True) 2) =
       (demo_process (Some True) 2, Inr 0)"
proof -
  have h0: "SOX_INITIALIZED (demo_process (Some False) 0) = Some False
     \<and> fst (ext_initialize_sox demo_lifecycle (engine (demo_process (Some False) 0))) \<noteq> SOX_SUCCESS_CODE"
    by (simp add: demo_lifecycle_eval)
  have h1: "SOX_INITIALIZED (demo_process (Some False) 1) = Some False
     \<and> fst (ext_initialize_sox demo_lifecycle (engine (demo_process (Some False) 1))) = SOX_SUCCESS_CODE"
    by (simp add: demo_lifecycle_eval)
  have h2: "SOX_INITIALIZED (demo_process (Some True) 2) = Some True"
    by (simp add: demo_lifecycle_eval)
  have r0: "initialize_sox demo_lifecycle (demo_process (Some False) 0) =
       (demo_process (Some False) 1, Inr (- 1))"
    by (simp add: initialize_sox_def truthy_def demo_lifecycle_eval)
  note t0 = initialize_sox_atomic_idempotent [of "demo_process (Some False) 0" demo_lifecycle]
  note t1 = initialize_sox_atomic_idempotent [of "demo_process (Some False) 1" demo_lifecycle]
  note t2 = initialize_sox_atomic_idempotent [of "demo_process (Some True) 2" demo_lifecycle]
  have a1: "SOX_INITIALIZED (fst (initialize_sox demo_lifecycle (demo_process (Some False) 1))) = Some True
     \<and> snd (initialize_sox demo_lifecycle (demo_process (Some False) 1)) = Inr 0"
    using t1 h1 by (simp add: SOX_SUCCESS_CODE_def)
  have a2: "initialize_sox demo_lifecycle (demo_process (Some True) 2) =
       (demo_process (Some True) 2, Inr 0)"
    using t2 h2 by (simp add: SOX_SUCCESS_CODE_def)
  from t0 h0 h1 r0 a1 a2 show ?thesis by simp
qed

end
